theory Spec2Isabelle
  imports Main "HOL-Library.AList"
begin

section \<open>Values shared by the two deployment scripts\<close>

text \<open>
  The repository holds two scripts: the etherlime deployment script (\<open>deployMaci\<close> and
  \<open>main\<close>) and the command \<open>deployVkRegistryContract\<close> of the command-line
  interface. Both deploy contracts through an external deployer and write contract
  addresses to a file. Console output (\<open>log\<close>, \<open>console.log\<close>, \<open>banner\<close>,
  \<open>logGreen\<close>) touches neither the chain nor the files and is left out of the model.
\<close>

type_synonym address = string

text \<open>The compiled artifacts that the scripts hand to the deployer.\<close>

datatype artifact =
    MiMC
  | Hasher
  | SignUpToken
  | SignUpTokenGatekeeper
  | FreeForAllSignUpGatekeeper
  | ConstantInitialVoiceCreditProxy
  | BatchUpdateStateTreeVerifier
  | QuadVoteTallyVerifier
  | MACI
  | VkRegistry

text \<open>
  Everything that a step can throw: a deployment that the deployer rejects, the
  \<open>RangeError\<close> of a big-integer power with a negative exponent, the \<open>ENOENT\<close> of
  renaming a file that does not exist, and the system error of a write that the file
  system refuses (a missing directory, a missing permission).
\<close>

datatype error =
    DeploymentFailed artifact
  | RangeError
  | ENOENT
  | WriteError

text \<open>JavaScript values that occur as constructor arguments.\<close>

datatype jsval =
    JStr string
  | JNum int
  | JObj "(string \<times> jsval) list"

section \<open>Big integers and their decimal strings\<close>

text \<open>The decimal digits of a natural number, most significant first.\<close>

definition digit_char :: "nat \<Rightarrow> char" where
  "digit_char n = ''0123456789'' ! n"

fun digits10 :: "nat \<Rightarrow> string" where
  "digits10 n = (if n < 10 then [digit_char n] else digits10 (n div 10) @ [digit_char (n mod 10)])"

declare digits10.simps [simp del]

text \<open>
  Modelled from the spec: \<open>bigInt\<close> of the package maci-crypto is not part of the
  sources. The spec's "exact (arbitrary-precision) integer arithmetic" is taken as the
  big integer of JavaScript: a value is an \<open>int\<close>, subtraction is exact, and
  \<open>bigInt(n)\<close> of an integral number is that integer.
\<close>

definition bigInt :: "int \<Rightarrow> int" where
  "bigInt n = n"

text \<open>
  Modelled from the spec: \<open>pow\<close> of these big integers, exact at every exponent from
  zero on ("must not silently truncate for large depths"). A negative exponent throws
  \<open>RangeError\<close>, as the power of JavaScript's big integers does.
\<close>

definition bigInt_pow :: "int \<Rightarrow> int \<Rightarrow> error + int" where
  "bigInt_pow b e = (if e < 0 then Inl RangeError else Inr (b ^ nat e))"

text \<open>
  Modelled from the spec: \<open>toString\<close> of these big integers, the "final string
  encoding": the decimal numeral, with a minus sign for a negative value.
\<close>

definition bigInt_toString :: "int \<Rightarrow> string" where
  "bigInt_toString i = (if i < 0 then CHR ''-'' # digits10 (nat (- i)) else digits10 (nat i))"

text \<open>
  The expression of lines 135 and 136 of the deployment script,
  \<open>(bigInt(2).pow(bigInt(depth)) - bigInt(1)).toString()\<close>.
\<close>

definition capacity :: "int \<Rightarrow> error + string" where
  "capacity depth =
     (case bigInt_pow (bigInt 2) (bigInt depth) of
        Inl e \<Rightarrow> Inl e
      | Inr p \<Rightarrow> Inr (bigInt_toString (p - bigInt 1)))"

text \<open>
  The number that a string of decimal digits denotes; it reads back what
  \<open>bigInt_toString\<close> wrote.
\<close>

definition digit_value :: "char \<Rightarrow> nat" where
  "digit_value c = of_char c - 48"

definition decimal_value :: "string \<Rightarrow> nat" where
  "decimal_value cs = foldl (\<lambda>acc c. 10 * acc + digit_value c) 0 cs"

section \<open>The deployer, the chain and the files\<close>

text \<open>
  A call \<open>deployer.deploy(artifact, libraries, ...args)\<close>. The deployer is the external
  capability: it answers each request with the address of the new contract or rejects
  it. The world keeps every attempt in the order of the calls, with its outcome, the
  files written, each holding a JSON object of names and addresses in key order, and the
  paths at which the file system accepts a write.
\<close>

record request =
  contract :: artifact
  libraries :: "(string \<times> address) list"
  constructorArgs :: "jsval list"

type_synonym attempt = "request \<times> address option"

type_synonym deployer = "attempt list \<Rightarrow> request \<Rightarrow> address option"

type_synonym path = "string list"

type_synonym manifest = "(string \<times> address) list"

record world =
  chain :: "attempt list"
  files :: "path \<rightharpoonup> manifest"
  writable :: "path \<Rightarrow> bool"

text \<open>
  Asynchronous steps: a step takes the world and returns its result, or the error it
  threw, with the new world. \<open>await m f\<close> runs \<open>m\<close> and hands its result to \<open>f\<close>; an
  error of \<open>m\<close> ends the function, as a rejected promise does at \<open>await\<close>.
\<close>

definition resolve :: "'a \<Rightarrow> world \<Rightarrow> (error + 'a) \<times> world" where
  "resolve x w = (Inr x, w)"

definition reject :: "error \<Rightarrow> world \<Rightarrow> (error + 'a) \<times> world" where
  "reject e w = (Inl e, w)"

definition await ::
  "(world \<Rightarrow> (error + 'a) \<times> world) \<Rightarrow> ('a \<Rightarrow> world \<Rightarrow> (error + 'b) \<times> world) \<Rightarrow>
   world \<Rightarrow> (error + 'b) \<times> world" where
  "await m f w =
     (case m w of
        (Inl e, w') \<Rightarrow> (Inl e, w')
      | (Inr x, w') \<Rightarrow> f x w')"

definition deploy ::
  "deployer \<Rightarrow> artifact \<Rightarrow> (string \<times> address) list \<Rightarrow> jsval list \<Rightarrow>
   world \<Rightarrow> (error + address) \<times> world" where
  "deploy deployer a libs as w =
     (let r = \<lparr>contract = a, libraries = libs, constructorArgs = as\<rparr>;
          outcome = deployer (chain w) r;
          w' = w\<lparr>chain := chain w @ [(r, outcome)]\<rparr>
      in case outcome of
           None \<Rightarrow> (Inl (DeploymentFailed a), w')
         | Some contractAddress \<Rightarrow> (Inr contractAddress, w'))"

text \<open>
  \<open>fs.writeFileSync(path, JSON.stringify(object))\<close>: at a path that the file system
  accepts, the file holds the object afterwards; at any other path the call throws and
  no file changes.
\<close>

definition writeFileSync :: "path \<Rightarrow> manifest \<Rightarrow> world \<Rightarrow> (error + unit) \<times> world" where
  "writeFileSync p m w =
     (if writable w p then (Inr (), w\<lparr>files := (files w)(p \<mapsto> m)\<rparr>)
      else (Inl WriteError, w))"

section \<open>The deployment script\<close>

record config =
  config_stateTreeDepth :: int
  config_messageTreeDepth :: int
  config_voteOptionTreeDepth :: int
  config_quadVoteTallyBatchSize :: int
  config_messageBatchSize :: int
  config_voteOptionsMaxLeafIndex :: int
  config_signUpDurationInSeconds :: int
  config_votingDurationInSeconds :: int
  config_initialVoiceCreditBalance :: int
  config_coordinatorPrivKey :: int

datatype PubKey = PubKey (rawPubKey: "int \<times> int")

definition deployConstantInitialVoiceCreditProxy ::
  "deployer \<Rightarrow> int \<Rightarrow> world \<Rightarrow> (error + address) \<times> world" where
  "deployConstantInitialVoiceCreditProxy deployer amount =
     deploy deployer ConstantInitialVoiceCreditProxy [] [JNum amount]"

definition deploySignupToken :: "deployer \<Rightarrow> world \<Rightarrow> (error + address) \<times> world" where
  "deploySignupToken deployer = deploy deployer SignUpToken [] []"

definition deploySignupTokenGatekeeper ::
  "deployer \<Rightarrow> address \<Rightarrow> world \<Rightarrow> (error + address) \<times> world" where
  "deploySignupTokenGatekeeper deployer signUpTokenAddress =
     deploy deployer SignUpTokenGatekeeper [] [JStr signUpTokenAddress]"

definition deployFreeForAllSignUpGatekeeper ::
  "deployer \<Rightarrow> world \<Rightarrow> (error + address) \<times> world" where
  "deployFreeForAllSignUpGatekeeper deployer = deploy deployer FreeForAllSignUpGatekeeper [] []"

text \<open>
  Lines 120 to 123 of \<open>deployMaci\<close>: a coordinator key that the caller passed is kept;
  without one the key is \<open>new PubKey(genPubKey(bigInt(config.maci.coordinatorPrivKey)))\<close>.
  \<open>genPubKey\<close> belongs to maci-crypto and is a parameter here. The module has already
  evaluated the same expression while loading (line 22), so it does not throw here.
\<close>

definition resolveCoordinatorKey ::
  "(int \<Rightarrow> int \<times> int) \<Rightarrow> config \<Rightarrow> PubKey option \<Rightarrow> PubKey" where
  "resolveCoordinatorKey genPubKey cfg coordinatorPubKey =
     (case coordinatorPubKey of
        None \<Rightarrow> PubKey (genPubKey (bigInt (config_coordinatorPrivKey cfg)))
      | Some k \<Rightarrow> k)"

record maci_contracts =
  batchUstVerifierContract :: address
  quadVoteTallyVerifierContract :: address
  mimcContract :: address
  maciContract :: address

text \<open>
  The constructor arguments of the main contract, in the order of lines 141 to 160.
\<close>

definition maci_request ::
  "int \<Rightarrow> int \<Rightarrow> int \<Rightarrow> int \<Rightarrow> int \<Rightarrow> string \<Rightarrow> string \<Rightarrow> int \<Rightarrow> address \<Rightarrow>
   address \<Rightarrow> address \<Rightarrow> int \<Rightarrow> int \<Rightarrow> address \<Rightarrow> PubKey \<Rightarrow> jsval list" where
  "maci_request stateTreeDepth messageTreeDepth voteOptionTreeDepth
     quadVoteTallyBatchSize messageBatchSize maxUsers maxMessages voteOptionsMaxLeafIndex
     signUpGatekeeperAddress batchUstVerifier quadVoteTallyVerifier
     signUpDurationInSeconds votingDurationInSeconds initialVoiceCreditProxy coordinatorPubKey =
     [JObj [(''stateTreeDepth'', JNum stateTreeDepth),
            (''messageTreeDepth'', JNum messageTreeDepth),
            (''voteOptionTreeDepth'', JNum voteOptionTreeDepth)],
      JObj [(''tallyBatchSize'', JNum quadVoteTallyBatchSize),
            (''messageBatchSize'', JNum messageBatchSize)],
      JObj [(''maxUsers'', JStr maxUsers),
            (''maxMessages'', JStr maxMessages),
            (''maxVoteOptions'', JNum voteOptionsMaxLeafIndex)],
      JStr signUpGatekeeperAddress,
      JStr batchUstVerifier,
      JStr quadVoteTallyVerifier,
      JNum signUpDurationInSeconds,
      JNum votingDurationInSeconds,
      JStr initialVoiceCreditProxy,
      JObj [(''x'', JStr (bigInt_toString (fst (rawPubKey coordinatorPubKey)))),
            (''y'', JStr (bigInt_toString (snd (rawPubKey coordinatorPubKey))))]]"

definition deployMaci ::
  "deployer \<Rightarrow> (int \<Rightarrow> int \<times> int) \<Rightarrow> config \<Rightarrow> address \<Rightarrow> address \<Rightarrow>
   int \<Rightarrow> int \<Rightarrow> int \<Rightarrow> int \<Rightarrow> int \<Rightarrow> int \<Rightarrow> int \<Rightarrow> int \<Rightarrow> PubKey option \<Rightarrow>
   world \<Rightarrow> (error + maci_contracts) \<times> world" where
  "deployMaci deployer genPubKey cfg signUpGatekeeperAddress initialVoiceCreditProxy
     stateTreeDepth messageTreeDepth voteOptionTreeDepth quadVoteTallyBatchSize
     messageBatchSize voteOptionsMaxLeafIndex signUpDurationInSeconds
     votingDurationInSeconds coordinatorPubKey =
     await (resolve (resolveCoordinatorKey genPubKey cfg coordinatorPubKey)) (\<lambda>coordinatorPubKey.
     await (deploy deployer MiMC [] []) (\<lambda>mimcContract.
     await (deploy deployer BatchUpdateStateTreeVerifier [] []) (\<lambda>batchUstVerifierContract.
     await (deploy deployer QuadVoteTallyVerifier [] []) (\<lambda>quadVoteTallyVerifierContract.
     await (case capacity stateTreeDepth of Inl e \<Rightarrow> reject e | Inr s \<Rightarrow> resolve s) (\<lambda>maxUsers.
     await (case capacity messageTreeDepth of Inl e \<Rightarrow> reject e | Inr s \<Rightarrow> resolve s) (\<lambda>maxMessages.
     await (deploy deployer MACI [(''MiMC'', mimcContract)]
              (maci_request stateTreeDepth messageTreeDepth voteOptionTreeDepth
                 quadVoteTallyBatchSize messageBatchSize maxUsers maxMessages
                 voteOptionsMaxLeafIndex signUpGatekeeperAddress batchUstVerifierContract
                 quadVoteTallyVerifierContract signUpDurationInSeconds
                 votingDurationInSeconds initialVoiceCreditProxy coordinatorPubKey))
       (\<lambda>maciContract.
     resolve \<lparr>batchUstVerifierContract = batchUstVerifierContract,
              quadVoteTallyVerifierContract = quadVoteTallyVerifierContract,
              mimcContract = mimcContract,
              maciContract = maciContract\<rparr>)))))))"

text \<open>
  The parsed command line: \<open>--output\<close> is required, the other two are \<open>null\<close> when
  absent. A condition \<open>if (signUpToken)\<close> holds for a string that is not empty.
\<close>

record arguments =
  args_output :: string
  args_signUpToken :: "string option"
  args_initialVoiceCreditProxy :: "string option"

text \<open>
  \<open>main\<close>, from the deployer on (line 215). The deployer built from the admin account is
  a parameter, and so is \<open>__dirname\<close>. \<open>deployMaci\<close> is called with three arguments, so
  its other parameters take their defaults from \<open>config\<close> and no coordinator key is
  passed. \<open>path.join(__dirname, '..', outputAddressFile)\<close> is kept as its segments.
\<close>

definition main ::
  "deployer \<Rightarrow> (int \<Rightarrow> int \<times> int) \<Rightarrow> config \<Rightarrow> arguments \<Rightarrow> string \<Rightarrow>
   world \<Rightarrow> (error + unit) \<times> world" where
  "main deployer genPubKey cfg args dirname =
     await (case args_signUpToken args of
              None \<Rightarrow> deploySignupToken deployer
            | Some signUpToken \<Rightarrow>
                if signUpToken \<noteq> [] then resolve signUpToken
                else deploySignupToken deployer) (\<lambda>signUpTokenAddress.
     await (case args_initialVoiceCreditProxy args of
              None \<Rightarrow> deployConstantInitialVoiceCreditProxy deployer
                        (config_initialVoiceCreditBalance cfg)
            | Some initialVoiceCreditProxy \<Rightarrow>
                if initialVoiceCreditProxy \<noteq> [] then resolve initialVoiceCreditProxy
                else deployConstantInitialVoiceCreditProxy deployer
                       (config_initialVoiceCreditBalance cfg)) (\<lambda>initialVoiceCreditBalanceAddress.
     await (deploySignupTokenGatekeeper deployer signUpTokenAddress)
       (\<lambda>signUpTokenGatekeeperContract.
     await (deployMaci deployer genPubKey cfg signUpTokenGatekeeperContract
              initialVoiceCreditBalanceAddress
              (config_stateTreeDepth cfg) (config_messageTreeDepth cfg)
              (config_voteOptionTreeDepth cfg) (config_quadVoteTallyBatchSize cfg)
              (config_messageBatchSize cfg) (config_voteOptionsMaxLeafIndex cfg)
              (config_signUpDurationInSeconds cfg) (config_votingDurationInSeconds cfg)
              None) (\<lambda>c.
     writeFileSync [dirname, ''..'', args_output args]
       [(''MiMC'', mimcContract c),
        (''BatchUpdateStateTreeVerifier'', batchUstVerifierContract c),
        (''QuadraticVoteTallyVerifier'', quadVoteTallyVerifierContract c),
        (''MACI'', maciContract c)]))))"

section \<open>The command that deploys the VkRegistry contract\<close>

text \<open>
  \<open>renameSync\<close> of Node: the file moves to the new path and replaces a file that is
  already there; it throws when the old path has no file.
\<close>

definition renameSync :: "path \<Rightarrow> path \<Rightarrow> world \<Rightarrow> (error + unit) \<times> world" where
  "renameSync oldPath newPath w =
     (case files w oldPath of
        None \<Rightarrow> (Inl ENOENT, w)
      | Some f \<Rightarrow> (Inr (), w\<lparr>files := ((files w)(oldPath := None))(newPath \<mapsto> f)\<rparr>))"

text \<open>
  Modelled from the spec: \<open>resetContractAddresses\<close> of \<open>../utils/storage\<close> is not part
  of the sources. After the rename the spec's \<open>resetStore\<close> "begins a new empty
  manifest": the store file holds an empty object.
\<close>

definition resetContractAddresses :: "path \<Rightarrow> world \<Rightarrow> (error + unit) \<times> world" where
  "resetContractAddresses store w = (Inr (), w\<lparr>files := (files w)(store \<mapsto> [])\<rparr>)"

text \<open>
  Modelled from the spec: \<open>storeContractAddress\<close> of \<open>../utils/storage\<close> is not part of
  the sources. It "appends/updates one entry in the current manifest and flushes to
  durable storage immediately"; writing a name twice "overwrites the prior address". A
  store file that does not exist counts as an empty manifest.
\<close>

definition storeContractAddress ::
  "path \<Rightarrow> string \<Rightarrow> address \<Rightarrow> world \<Rightarrow> (error + unit) \<times> world" where
  "storeContractAddress store name addr w =
     (Inr (),
      w\<lparr>files := (files w)
         (store \<mapsto> AList.update name addr (case files w store of None \<Rightarrow> [] | Some m \<Rightarrow> m))\<rparr>)"

text \<open>
  Modelled from the spec: no function of the sources reads the store. \<open>loadManifest\<close>
  "reads the current persisted state".
\<close>

definition loadManifest :: "path \<Rightarrow> world \<Rightarrow> (error + manifest) \<times> world" where
  "loadManifest store w =
     (case files w store of
        None \<Rightarrow> (Inl ENOENT, w)
      | Some m \<Rightarrow> (Inr m, w))"

text \<open>
  Lines 17 and 18 of \<open>deployVkRegistryContract\<close>, which the spec calls \<open>resetStore\<close>:
  the unconditional rename of the store file to the backup path, then the reset.
\<close>

definition resetStore :: "path \<Rightarrow> path \<Rightarrow> world \<Rightarrow> (error + unit) \<times> world" where
  "resetStore contractAddressesStore oldContractAddressesStore =
     await (renameSync contractAddressesStore oldContractAddressesStore) (\<lambda>_.
     resetContractAddresses contractAddressesStore)"

text \<open>
  The sequence \<open>resetStore()\<close>, \<open>storeContractAddress(X, addr)\<close>, \<open>loadManifest()\<close>;
  its result is the manifest that was loaded.
\<close>

definition reset_store_load ::
  "path \<Rightarrow> path \<Rightarrow> string \<Rightarrow> address \<Rightarrow> world \<Rightarrow> (error + manifest) \<times> world" where
  "reset_store_load contractAddressesStore oldContractAddressesStore name addr =
     await (resetStore contractAddressesStore oldContractAddressesStore) (\<lambda>_.
     await (storeContractAddress contractAddressesStore name addr) (\<lambda>_.
     loadManifest contractAddressesStore))"

text \<open>
  \<open>deployVkRegistryContract\<close>. The two paths of \<open>../utils/constants\<close> are parameters.
  \<open>deployVkRegistry(true)\<close> of maci-contracts and the wait for its transaction are one
  request to the deployer. \<open>quiet\<close> only decides whether the address is printed.
\<close>

definition deployVkRegistryContract ::
  "deployer \<Rightarrow> path \<Rightarrow> path \<Rightarrow> bool \<Rightarrow> world \<Rightarrow> (error + unit) \<times> world" where
  "deployVkRegistryContract deployer contractAddressesStore oldContractAddressesStore quiet =
     await (renameSync contractAddressesStore oldContractAddressesStore) (\<lambda>_.
     await (resetContractAddresses contractAddressesStore) (\<lambda>_.
     await (deploy deployer VkRegistry [] []) (\<lambda>vkRegistry.
     storeContractAddress contractAddressesStore ''VkRegistry'' vkRegistry)))"

section \<open>Observations and sample inputs\<close>

text \<open>The attempts that a step adds to the chain, oldest first.\<close>

definition attempts :: "(world \<Rightarrow> 'r \<times> world) \<Rightarrow> world \<Rightarrow> attempt list" where
  "attempts run w = drop (length (chain w)) (chain (snd (run w)))"

text \<open>An attempt for artifact \<open>a\<close> in the log gave the address \<open>addr\<close>.\<close>

definition deployed :: "artifact \<Rightarrow> address \<Rightarrow> attempt list \<Rightarrow> bool" where
  "deployed a addr log = list_ex (\<lambda>(r, outcome). contract r = a \<and> outcome = Some addr) log"

text \<open>Some attempt of the log is for artifact \<open>a\<close>, whatever its outcome.\<close>

definition attempted :: "artifact \<Rightarrow> attempt list \<Rightarrow> bool" where
  "attempted a log = list_ex (\<lambda>(r, outcome). contract r = a) log"


text \<open>Some attempt of the log is for artifact \<open>a\<close> and was rejected.\<close>

definition rejected :: "artifact \<Rightarrow> attempt list \<Rightarrow> bool" where
  "rejected a log = list_ex (\<lambda>(r, outcome). contract r = a \<and> outcome = None) log"

text \<open>
  What holds of the result and the world that a step returns. The rules for \<open>returns\<close>
  follow a run step by step, with one case for each answer of the deployer.
\<close>

definition returns :: "(world \<Rightarrow> 'r \<times> world) \<Rightarrow> world \<Rightarrow> ('r \<Rightarrow> world \<Rightarrow> bool) \<Rightarrow> bool" where
  "returns run w Q = (case run w of (r, w') \<Rightarrow> Q r w')"

text \<open>
  The dependencies of a request for the main contract, given the attempts before it:
  the hashing library, both verifiers and the gatekeeper have an address, and the
  request carries these addresses. A log is ordered when each of its requests for the
  main contract has its dependencies among the attempts before it.
\<close>

definition dependencies_met :: "attempt list \<Rightarrow> request \<Rightarrow> bool" where
  "dependencies_met seen req =
     (\<exists>mimc bust qvt gk.
        deployed MiMC mimc seen \<and> deployed BatchUpdateStateTreeVerifier bust seen \<and>
        deployed QuadVoteTallyVerifier qvt seen \<and> deployed SignUpTokenGatekeeper gk seen \<and>
        libraries req = [(''MiMC'', mimc)] \<and> constructorArgs req ! 3 = JStr gk \<and>
        constructorArgs req ! 4 = JStr bust \<and> constructorArgs req ! 5 = JStr qvt)"

fun ordered_from :: "attempt list \<Rightarrow> attempt list \<Rightarrow> bool" where
  "ordered_from seen [] = True"
| "ordered_from seen (x # rest) =
     ((contract (fst x) = MACI \<longrightarrow> dependencies_met seen (fst x)) \<and>
      ordered_from (seen @ [x]) rest)"

text \<open>
  Sample inputs: a deployer that accepts every request and gives each artifact its own
  address, one that rejects a single artifact, a configuration, a key derivation, the
  world before a first run, where every write is accepted, and the same world with a
  file system that accepts no write.
\<close>

definition address_for :: "artifact \<Rightarrow> address" where
  "address_for a =
     (case a of
        MiMC \<Rightarrow> ''0x01''
      | Hasher \<Rightarrow> ''0x02''
      | SignUpToken \<Rightarrow> ''0x03''
      | SignUpTokenGatekeeper \<Rightarrow> ''0x04''
      | FreeForAllSignUpGatekeeper \<Rightarrow> ''0x05''
      | ConstantInitialVoiceCreditProxy \<Rightarrow> ''0x06''
      | BatchUpdateStateTreeVerifier \<Rightarrow> ''0x07''
      | QuadVoteTallyVerifier \<Rightarrow> ''0x08''
      | MACI \<Rightarrow> ''0x09''
      | VkRegistry \<Rightarrow> ''0x0a'')"

definition accepting :: deployer where
  "accepting log r = Some (address_for (contract r))"

definition rejecting :: "artifact \<Rightarrow> deployer" where
  "rejecting a log r = (if contract r = a then None else Some (address_for (contract r)))"

definition sample_config :: config where
  "sample_config =
     \<lparr>config_stateTreeDepth = 4,
      config_messageTreeDepth = 5,
      config_voteOptionTreeDepth = 2,
      config_quadVoteTallyBatchSize = 4,
      config_messageBatchSize = 4,
      config_voteOptionsMaxLeafIndex = 3,
      config_signUpDurationInSeconds = 3600,
      config_votingDurationInSeconds = 7200,
      config_initialVoiceCreditBalance = 100,
      config_coordinatorPrivKey = 7\<rparr>"

definition sample_genPubKey :: "int \<Rightarrow> int \<times> int" where
  "sample_genPubKey k = (k + 1, k + 2)"

definition sample_arguments :: "string option \<Rightarrow> string option \<Rightarrow> arguments" where
  "sample_arguments token proxy =
     \<lparr>args_output = ''deployedAddresses.json'',
      args_signUpToken = token,
      args_initialVoiceCreditProxy = proxy\<rparr>"

definition zero_depth_config :: config where
  "zero_depth_config =
     sample_config\<lparr>config_stateTreeDepth := 0,
                   config_messageTreeDepth := 0,
                   config_voteOptionTreeDepth := 0\<rparr>"

definition first_run :: world where
  "first_run = \<lparr>chain = [], files = Map.empty, writable = (\<lambda>p. True)\<rparr>"

definition read_only_run :: world where
  "read_only_run = \<lparr>chain = [], files = Map.empty, writable = (\<lambda>p. False)\<rparr>"

text \<open>
  A world after two earlier runs of the command: the store holds the address of the
  second run and the backup path holds the archive of the first.
\<close>

definition sample_store :: path where
  "sample_store = [''contractAddresses.json'']"

definition sample_backup :: path where
  "sample_backup = [''contractAddresses.old.json'']"

definition third_run :: world where
  "third_run =
     \<lparr>chain = [],
      files = [sample_store \<mapsto> [(''VkRegistry'', ''0x22'')],
               sample_backup \<mapsto> [(''VkRegistry'', ''0x11'')]],
      writable = (\<lambda>p. True)\<rparr>"

section \<open>Properties of the decimal strings\<close>

lemma digit_value_digit_char: "n < 10 \<Longrightarrow> digit_value (digit_char n) = n"
proof -
  assume "n < 10"
  then have "n \<in> {0, 1, 2, 3, 4, 5, 6, 7, 8, 9}"
    by auto
  then show ?thesis
    by (auto simp add: digit_value_def digit_char_def)
qed

lemma decimal_value_snoc:
  "decimal_value (cs @ [c]) = 10 * decimal_value cs + digit_value c"
  by (simp add: decimal_value_def)

lemma decimal_value_digits10: "decimal_value (digits10 n) = n"
proof (induction n rule: digits10.induct)
  case (1 n)
  show ?case
  proof (cases "n < 10")
    case True
    then show ?thesis
      by (simp add: digits10.simps [of n] decimal_value_def digit_value_digit_char)
  next
    case False
    with "1" have "decimal_value (digits10 (n div 10)) = n div 10"
      by simp
    with False show ?thesis
      by (simp add: digits10.simps [of n] decimal_value_snoc digit_value_digit_char)
  qed
qed

lemma decimal_value_toString: "0 \<le> i \<Longrightarrow> int (decimal_value (bigInt_toString i)) = i"
  by (simp add: bigInt_toString_def decimal_value_digits10)

lemma capacity_exact:
  "0 \<le> d \<Longrightarrow> capacity d = Inr (bigInt_toString (2 ^ nat d - 1))"
  by (simp add: capacity_def bigInt_pow_def bigInt_def)

section \<open>Rules for following a run\<close>

lemma returnsD: "returns run w Q \<Longrightarrow> Q (fst (run w)) (snd (run w))"
  by (simp add: returns_def split: prod.splits)

lemma returns_await:
  "returns (await m f) w Q =
     returns m w (\<lambda>r w1. case r of Inl e \<Rightarrow> Q (Inl e) w1 | Inr x \<Rightarrow> returns (f x) w1 Q)"
  by (simp add: returns_def await_def split: prod.splits sum.splits)

lemma returns_deploy:
  "returns (deploy D a l as) w Q =
     ((D (chain w) \<lparr>contract = a, libraries = l, constructorArgs = as\<rparr> = None \<longrightarrow>
         Q (Inl (DeploymentFailed a))
           (w\<lparr>chain := chain w @
                 [(\<lparr>contract = a, libraries = l, constructorArgs = as\<rparr>, None)]\<rparr>)) \<and>
      (\<forall>x. D (chain w) \<lparr>contract = a, libraries = l, constructorArgs = as\<rparr> = Some x \<longrightarrow>
         Q (Inr x)
           (w\<lparr>chain := chain w @
                 [(\<lparr>contract = a, libraries = l, constructorArgs = as\<rparr>, Some x)]\<rparr>)))"
  by (simp add: returns_def deploy_def Let_def split: option.splits)

lemma returns_resolve: "returns (resolve x) w Q = Q (Inr x) w"
  by (simp add: returns_def resolve_def)

lemma returns_reject: "returns (reject e) w Q = Q (Inl e) w"
  by (simp add: returns_def reject_def)

lemma returns_writeFileSync:
  "returns (writeFileSync p m) w Q =
     ((writable w p \<longrightarrow> Q (Inr ()) (w\<lparr>files := (files w)(p \<mapsto> m)\<rparr>)) \<and>
      (\<not> writable w p \<longrightarrow> Q (Inl WriteError) w))"
  by (simp add: returns_def writeFileSync_def)

lemma returns_case_option:
  "returns (case c of None \<Rightarrow> m | Some y \<Rightarrow> n y) w Q =
     ((c = None \<longrightarrow> returns m w Q) \<and> (\<forall>y. c = Some y \<longrightarrow> returns (n y) w Q))"
  by (simp split: option.splits)

lemma returns_case_sum:
  "returns (case c of Inl e \<Rightarrow> m e | Inr y \<Rightarrow> n y) w Q =
     ((\<forall>e. c = Inl e \<longrightarrow> returns (m e) w Q) \<and> (\<forall>y. c = Inr y \<longrightarrow> returns (n y) w Q))"
  by (simp split: sum.splits)

lemma returns_if:
  "returns (if c then m else n) w Q = ((c \<longrightarrow> returns m w Q) \<and> (\<not> c \<longrightarrow> returns n w Q))"
  by simp

lemmas returns_simps = returns_await returns_deploy returns_resolve returns_reject
  returns_writeFileSync returns_case_option returns_case_sum returns_if
  deploySignupToken_def deployConstantInitialVoiceCreditProxy_def
  deploySignupTokenGatekeeper_def



section \<open>The order of the attempts of a run\<close>

lemma ordered_fromD:
  "ordered_from seen log \<Longrightarrow> log = pre @ (req, out) # post \<Longrightarrow> contract req = MACI \<Longrightarrow>
   dependencies_met (seen @ pre) req"
proof (induction log arbitrary: seen pre)
  case Nil
  then show ?case by simp
next
  case (Cons x rest)
  show ?case
  proof (cases pre)
    case Nil
    with Cons.prems show ?thesis by simp
  next
    case (Cons y pre')
    with Cons.prems have "ordered_from (seen @ [x]) rest"
      and "rest = pre' @ (req, out) # post" and "y = x"
      by simp_all
    with Cons.IH [of "seen @ [x]" pre'] Cons.prems(3) \<open>pre = y # pre'\<close> show ?thesis
      by simp
  qed
qed

lemma main_ordered: "ordered_from [] (attempts (main D g cfg args dir) w)"
proof -
  have "returns (main D g cfg args dir) w
          (\<lambda>r w'. ordered_from [] (drop (length (chain w)) (chain w')))"
    by (simp add: main_def deployMaci_def returns_simps deployed_def dependencies_met_def
          maci_request_def)
  from returnsD [OF this] show ?thesis
    by (simp add: attempts_def)
qed

section \<open>Sample runs\<close>

lemmas eval_defs = main_def deployMaci_def await_def deploy_def Let_def resolve_def reject_def
  writeFileSync_def deploySignupToken_def deployConstantInitialVoiceCreditProxy_def
  deploySignupTokenGatekeeper_def accepting_def rejecting_def address_for_def
  sample_config_def sample_genPubKey_def sample_arguments_def first_run_def zero_depth_config_def
  capacity_def bigInt_pow_def bigInt_def bigInt_toString_def digits10.simps digit_char_def
  maci_request_def resolveCoordinatorKey_def

lemma sample_run:
  "main accepting sample_genPubKey sample_config (sample_arguments None None) ''scripts''
     first_run =
     (Inr (),
      first_run\<lparr>chain :=
         [(\<lparr>contract = SignUpToken, libraries = [], constructorArgs = []\<rparr>, Some ''0x03''),
          (\<lparr>contract = ConstantInitialVoiceCreditProxy, libraries = [],
              constructorArgs = [JNum 100]\<rparr>, Some ''0x06''),
          (\<lparr>contract = SignUpTokenGatekeeper, libraries = [],
              constructorArgs = [JStr ''0x03'']\<rparr>, Some ''0x04''),
          (\<lparr>contract = MiMC, libraries = [], constructorArgs = []\<rparr>, Some ''0x01''),
          (\<lparr>contract = BatchUpdateStateTreeVerifier, libraries = [], constructorArgs = []\<rparr>,
           Some ''0x07''),
          (\<lparr>contract = QuadVoteTallyVerifier, libraries = [], constructorArgs = []\<rparr>,
           Some ''0x08''),
          (\<lparr>contract = MACI, libraries = [(''MiMC'', ''0x01'')],
              constructorArgs =
                [JObj [(''stateTreeDepth'', JNum 4), (''messageTreeDepth'', JNum 5),
                       (''voteOptionTreeDepth'', JNum 2)],
                 JObj [(''tallyBatchSize'', JNum 4), (''messageBatchSize'', JNum 4)],
                 JObj [(''maxUsers'', JStr ''15''), (''maxMessages'', JStr ''31''),
                       (''maxVoteOptions'', JNum 3)],
                 JStr ''0x04'', JStr ''0x07'', JStr ''0x08'', JNum 3600, JNum 7200,
                 JStr ''0x06'', JObj [(''x'', JStr ''8''), (''y'', JStr ''9'')]]\<rparr>,
           Some ''0x09'')],
       files :=
         [[''scripts'', ''..'', ''deployedAddresses.json''] \<mapsto>
            [(''MiMC'', ''0x01''), (''BatchUpdateStateTreeVerifier'', ''0x07''),
             (''QuadraticVoteTallyVerifier'', ''0x08''), (''MACI'', ''0x09'')]]\<rparr>)"
  by (simp add: eval_defs)

lemma sample_run_token:
  "main accepting sample_genPubKey sample_config (sample_arguments (Some ''0xT0'') None)
     ''scripts'' first_run =
     (Inr (),
      first_run\<lparr>chain :=
         [(\<lparr>contract = ConstantInitialVoiceCreditProxy, libraries = [],
              constructorArgs = [JNum 100]\<rparr>, Some ''0x06''),
          (\<lparr>contract = SignUpTokenGatekeeper, libraries = [],
              constructorArgs = [JStr ''0xT0'']\<rparr>, Some ''0x04''),
          (\<lparr>contract = MiMC, libraries = [], constructorArgs = []\<rparr>, Some ''0x01''),
          (\<lparr>contract = BatchUpdateStateTreeVerifier, libraries = [], constructorArgs = []\<rparr>,
           Some ''0x07''),
          (\<lparr>contract = QuadVoteTallyVerifier, libraries = [], constructorArgs = []\<rparr>,
           Some ''0x08''),
          (\<lparr>contract = MACI, libraries = [(''MiMC'', ''0x01'')],
              constructorArgs =
                [JObj [(''stateTreeDepth'', JNum 4), (''messageTreeDepth'', JNum 5),
                       (''voteOptionTreeDepth'', JNum 2)],
                 JObj [(''tallyBatchSize'', JNum 4), (''messageBatchSize'', JNum 4)],
                 JObj [(''maxUsers'', JStr ''15''), (''maxMessages'', JStr ''31''),
                       (''maxVoteOptions'', JNum 3)],
                 JStr ''0x04'', JStr ''0x07'', JStr ''0x08'', JNum 3600, JNum 7200,
                 JStr ''0x06'', JObj [(''x'', JStr ''8''), (''y'', JStr ''9'')]]\<rparr>,
           Some ''0x09'')],
       files :=
         [[''scripts'', ''..'', ''deployedAddresses.json''] \<mapsto>
            [(''MiMC'', ''0x01''), (''BatchUpdateStateTreeVerifier'', ''0x07''),
             (''QuadraticVoteTallyVerifier'', ''0x08''), (''MACI'', ''0x09'')]]\<rparr>)"
  by (simp add: eval_defs)

lemma sample_run_gatekeeper_rejected:
  "main (rejecting SignUpTokenGatekeeper) sample_genPubKey sample_config
     (sample_arguments None None) ''scripts'' first_run =
     (Inl (DeploymentFailed SignUpTokenGatekeeper),
      first_run\<lparr>chain :=
         [(\<lparr>contract = SignUpToken, libraries = [], constructorArgs = []\<rparr>, Some ''0x03''),
          (\<lparr>contract = ConstantInitialVoiceCreditProxy, libraries = [],
              constructorArgs = [JNum 100]\<rparr>, Some ''0x06''),
          (\<lparr>contract = SignUpTokenGatekeeper, libraries = [],
              constructorArgs = [JStr ''0x03'']\<rparr>, None)],
       files := Map.empty\<rparr>)"
  by (simp add: eval_defs)


lemma read_only_run_zero_depth:
  "fst (main accepting sample_genPubKey zero_depth_config (sample_arguments None None)
          ''scripts'' read_only_run) = Inl WriteError \<and>
   map contract
     (map fst (chain (snd (main accepting sample_genPubKey zero_depth_config
                             (sample_arguments None None) ''scripts'' read_only_run)))) =
     [SignUpToken, ConstantInitialVoiceCreditProxy, SignUpTokenGatekeeper, MiMC,
      BatchUpdateStateTreeVerifier, QuadVoteTallyVerifier, MACI]"
  by (simp add: eval_defs read_only_run_def)

lemma chain_first_run: "chain first_run = []"
  by (simp add: first_run_def)

lemma files_first_run: "files first_run p = None"
  by (simp add: first_run_def)


lemma sample_arguments_sel:
  "args_output (sample_arguments token proxy) = ''deployedAddresses.json''"
  "args_signUpToken (sample_arguments token proxy) = token"
  "args_initialVoiceCreditProxy (sample_arguments token proxy) = proxy"
  by (simp_all add: sample_arguments_def)

section \<open>Capacities and the coordinator key\<close>

text \<open>
  Claim C1. For valid depths, which are positive, \<open>deployMaci\<close> derives the capacities
  exactly: the strings \<open>maxUsers\<close> and \<open>maxMessages\<close> are the decimal numerals of
  \<open>2^stateTreeDepth - 1\<close> and \<open>2^messageTreeDepth - 1\<close>, they read back as these
  numbers at every depth, and every request for the main contract carries them.
\<close>

theorem deployMaci_capacities_exact:
  assumes "0 < stateTreeDepth" and "0 < messageTreeDepth"
  shows "capacity stateTreeDepth = Inr (bigInt_toString (2 ^ nat stateTreeDepth - 1)) \<and>
         capacity messageTreeDepth = Inr (bigInt_toString (2 ^ nat messageTreeDepth - 1)) \<and>
         int (decimal_value (bigInt_toString (2 ^ nat stateTreeDepth - 1))) =
           2 ^ nat stateTreeDepth - 1 \<and>
         int (decimal_value (bigInt_toString (2 ^ nat messageTreeDepth - 1))) =
           2 ^ nat messageTreeDepth - 1 \<and>
         (\<forall>(req, out) \<in> set (attempts (deployMaci D g cfg gk ivcp stateTreeDepth
                                          messageTreeDepth vd qb mb vo su vt k) w).
            contract req = MACI \<longrightarrow>
            constructorArgs req ! 2 =
              JObj [(''maxUsers'', JStr (bigInt_toString (2 ^ nat stateTreeDepth - 1))),
                    (''maxMessages'', JStr (bigInt_toString (2 ^ nat messageTreeDepth - 1))),
                    (''maxVoteOptions'', JNum vo)])"
proof -
  have u: "capacity stateTreeDepth = Inr (bigInt_toString (2 ^ nat stateTreeDepth - 1))"
    and m: "capacity messageTreeDepth = Inr (bigInt_toString (2 ^ nat messageTreeDepth - 1))"
    using assms by (simp_all add: capacity_exact)
  have du: "int (decimal_value (bigInt_toString (2 ^ nat stateTreeDepth - 1))) =
              2 ^ nat stateTreeDepth - 1"
    and dm: "int (decimal_value (bigInt_toString (2 ^ nat messageTreeDepth - 1))) =
              2 ^ nat messageTreeDepth - 1"
    by (simp_all add: decimal_value_toString)
  have "returns (deployMaci D g cfg gk ivcp stateTreeDepth messageTreeDepth
                   vd qb mb vo su vt k) w
          (\<lambda>r w'. \<forall>(req, out) \<in> set (drop (length (chain w)) (chain w')).
             contract req = MACI \<longrightarrow>
             constructorArgs req ! 2 =
               JObj [(''maxUsers'', JStr (bigInt_toString (2 ^ nat stateTreeDepth - 1))),
                     (''maxMessages'', JStr (bigInt_toString (2 ^ nat messageTreeDepth - 1))),
                     (''maxVoteOptions'', JNum vo)])"
    by (simp add: deployMaci_def returns_simps u m maci_request_def)
  from returnsD [OF this] u m du dm show ?thesis
    by (simp add: attempts_def)
qed

theorem deployMaci_capacities_exact_witness:
  "(0::int) < 32 \<and> (0::int) < 5 \<and>
   capacity 32 = Inr ''4294967295'' \<and> capacity 5 = Inr ''31'' \<and>
   decimal_value ''4294967295'' = 4294967295 \<and> decimal_value ''31'' = 31 \<and>
   contract
     (fst (attempts (deployMaci accepting sample_genPubKey sample_config ''0x04'' ''0x06''
                       32 5 2 4 4 3 3600 7200 None) first_run ! 3)) = MACI \<and>
   constructorArgs
     (fst (attempts (deployMaci accepting sample_genPubKey sample_config ''0x04'' ''0x06''
                       32 5 2 4 4 3 3600 7200 None) first_run ! 3)) ! 2 =
     JObj [(''maxUsers'', JStr ''4294967295''), (''maxMessages'', JStr ''31''),
           (''maxVoteOptions'', JNum 3)]"
proof -
  have h: "(0::int) < 32" "(0::int) < 5"
    by simp_all
  from deployMaci_capacities_exact [OF h, of accepting sample_genPubKey sample_config
      "''0x04''" "''0x06''" 2 4 4 3 3600 7200 None first_run]
  show ?thesis
    by (simp add: attempts_def eval_defs decimal_value_def digit_value_def)
qed

text \<open>
  Claim C7. The coordinator key is resolved without touching the world: a key that the
  caller passes is the result whatever the configuration and its private key are, and
  the request for the main contract carries its two coordinates; without one the result
  is the key derived from the private key, so two configurations with the same private
  key give the same key.
\<close>

theorem resolveCoordinatorKey_supplied_or_derived:
  "resolveCoordinatorKey genPubKey cfg (Some k) = k \<and>
   resolveCoordinatorKey genPubKey cfg None =
     PubKey (genPubKey (config_coordinatorPrivKey cfg)) \<and>
   (config_coordinatorPrivKey cfg = config_coordinatorPrivKey cfg' \<longrightarrow>
      resolveCoordinatorKey genPubKey cfg None = resolveCoordinatorKey genPubKey cfg' None) \<and>
   (\<forall>(req, out) \<in> set (attempts (deployMaci D genPubKey cfg gk ivcp sd md vd qb mb vo su vt
                                    (Some k)) w).
      contract req = MACI \<longrightarrow>
      constructorArgs req ! 9 =
        JObj [(''x'', JStr (bigInt_toString (fst (rawPubKey k)))),
              (''y'', JStr (bigInt_toString (snd (rawPubKey k))))])"
proof -
  have "returns (deployMaci D genPubKey cfg gk ivcp sd md vd qb mb vo su vt (Some k)) w
          (\<lambda>r w'. \<forall>(req, out) \<in> set (drop (length (chain w)) (chain w')).
             contract req = MACI \<longrightarrow>
             constructorArgs req ! 9 =
               JObj [(''x'', JStr (bigInt_toString (fst (rawPubKey k)))),
                     (''y'', JStr (bigInt_toString (snd (rawPubKey k))))])"
    by (simp add: deployMaci_def returns_simps resolveCoordinatorKey_def maci_request_def)
  from returnsD [OF this] show ?thesis
    by (simp add: attempts_def resolveCoordinatorKey_def bigInt_def)
qed

theorem resolveCoordinatorKey_supplied_or_derived_witness:
  "resolveCoordinatorKey sample_genPubKey sample_config (Some (PubKey (11, 12))) =
     PubKey (11, 12) \<and>
   resolveCoordinatorKey sample_genPubKey sample_config None = PubKey (8, 9) \<and>
   config_coordinatorPrivKey sample_config = config_coordinatorPrivKey zero_depth_config \<and>
   resolveCoordinatorKey sample_genPubKey zero_depth_config None = PubKey (8, 9) \<and>
   contract
     (fst (attempts (deployMaci accepting sample_genPubKey sample_config ''0x04'' ''0x06''
                       4 5 2 4 4 3 3600 7200 (Some (PubKey (11, 12)))) first_run ! 3)) = MACI \<and>
   constructorArgs
     (fst (attempts (deployMaci accepting sample_genPubKey sample_config ''0x04'' ''0x06''
                       4 5 2 4 4 3 3600 7200 (Some (PubKey (11, 12)))) first_run ! 3)) ! 9 =
     JObj [(''x'', JStr ''11''), (''y'', JStr ''12'')]"
  using resolveCoordinatorKey_supplied_or_derived [of sample_genPubKey sample_config
      "PubKey (11, 12)" zero_depth_config accepting "''0x04''" "''0x06''" 4 5 2 4 4 3 3600 7200
      first_run]
  by (simp add: attempts_def eval_defs)

section \<open>The run of the deployment script\<close>

text \<open>
  Claim C6. In every run, a request for the main contract comes after successful
  deployments of the hashing library, of both verifiers and of the gatekeeper, and it
  carries their addresses: the library as its link, the other three as its constructor
  arguments.
\<close>

theorem main_dependency_order:
  assumes "attempts (main D g cfg args dir) w = pre @ (req, out) # post"
    and "contract req = MACI"
  shows "\<exists>mimc bust qvt gk.
           deployed MiMC mimc pre \<and> deployed BatchUpdateStateTreeVerifier bust pre \<and>
           deployed QuadVoteTallyVerifier qvt pre \<and> deployed SignUpTokenGatekeeper gk pre \<and>
           libraries req = [(''MiMC'', mimc)] \<and> constructorArgs req ! 3 = JStr gk \<and>
           constructorArgs req ! 4 = JStr bust \<and> constructorArgs req ! 5 = JStr qvt"
  using ordered_fromD [OF main_ordered assms]
  by (simp add: dependencies_met_def)

theorem main_dependency_order_witness:
  "attempts (main accepting sample_genPubKey sample_config (sample_arguments None None)
               ''scripts'') first_run =
     take 6 (attempts (main accepting sample_genPubKey sample_config
                         (sample_arguments None None) ''scripts'') first_run) @
     (fst (attempts (main accepting sample_genPubKey sample_config
                       (sample_arguments None None) ''scripts'') first_run ! 6),
      snd (attempts (main accepting sample_genPubKey sample_config
                       (sample_arguments None None) ''scripts'') first_run ! 6)) # [] \<and>
   contract (fst (attempts (main accepting sample_genPubKey sample_config
                              (sample_arguments None None) ''scripts'') first_run ! 6)) = MACI \<and>
   deployed MiMC ''0x01''
     (take 6 (attempts (main accepting sample_genPubKey sample_config
                          (sample_arguments None None) ''scripts'') first_run)) \<and>
   deployed BatchUpdateStateTreeVerifier ''0x07''
     (take 6 (attempts (main accepting sample_genPubKey sample_config
                          (sample_arguments None None) ''scripts'') first_run)) \<and>
   deployed QuadVoteTallyVerifier ''0x08''
     (take 6 (attempts (main accepting sample_genPubKey sample_config
                          (sample_arguments None None) ''scripts'') first_run)) \<and>
   deployed SignUpTokenGatekeeper ''0x04''
     (take 6 (attempts (main accepting sample_genPubKey sample_config
                          (sample_arguments None None) ''scripts'') first_run)) \<and>
   libraries (fst (attempts (main accepting sample_genPubKey sample_config
                               (sample_arguments None None) ''scripts'') first_run ! 6)) =
     [(''MiMC'', ''0x01'')] \<and>
   take 3 (drop 3 (constructorArgs
     (fst (attempts (main accepting sample_genPubKey sample_config
                       (sample_arguments None None) ''scripts'') first_run ! 6)))) =
     [JStr ''0x04'', JStr ''0x07'', JStr ''0x08'']"
proof -
  have a: "attempts (main accepting sample_genPubKey sample_config (sample_arguments None None)
                       ''scripts'') first_run =
             chain (snd (main accepting sample_genPubKey sample_config
                           (sample_arguments None None) ''scripts'' first_run))"
    by (simp add: attempts_def chain_first_run)
  have s: "attempts (main accepting sample_genPubKey sample_config (sample_arguments None None)
               ''scripts'') first_run =
     take 6 (attempts (main accepting sample_genPubKey sample_config
                         (sample_arguments None None) ''scripts'') first_run) @
     (fst (attempts (main accepting sample_genPubKey sample_config
                       (sample_arguments None None) ''scripts'') first_run ! 6),
      snd (attempts (main accepting sample_genPubKey sample_config
                       (sample_arguments None None) ''scripts'') first_run ! 6)) # []"
    and c: "contract (fst (attempts (main accepting sample_genPubKey sample_config
                         (sample_arguments None None) ''scripts'') first_run ! 6)) = MACI"
    by (simp_all add: a sample_run)
  from main_dependency_order [OF s c] show ?thesis
    by (simp add: a sample_run deployed_def)
qed

text \<open>
  Claim C2, amended. When a signup-token address that is not the empty string is
  passed, no run deploys a token. Every request for the gatekeeper has the passed
  address as its only constructor argument; the request is made unless the deployer
  rejected the voice-credit proxy before it, and in a completed run it was accepted. The
  manifest that a completed run writes has the four names MiMC,
  BatchUpdateStateTreeVerifier, QuadraticVoteTallyVerifier and MACI and no entry for the
  token.
\<close>

theorem token_override:
  assumes "args_signUpToken args = Some token" and "token \<noteq> []"
  shows "\<not> attempted SignUpToken (attempts (main D g cfg args dir) w) \<and>
         (\<forall>(req, out) \<in> set (attempts (main D g cfg args dir) w).
            contract req = SignUpTokenGatekeeper \<longrightarrow> constructorArgs req = [JStr token]) \<and>
         (\<not> rejected ConstantInitialVoiceCreditProxy (attempts (main D g cfg args dir) w) \<longrightarrow>
            (\<exists>out. (\<lparr>contract = SignUpTokenGatekeeper, libraries = [],
                        constructorArgs = [JStr token]\<rparr>, out)
                    \<in> set (attempts (main D g cfg args dir) w))) \<and>
         (fst (main D g cfg args dir w) = Inr () \<longrightarrow>
            (\<exists>gk. (\<lparr>contract = SignUpTokenGatekeeper, libraries = [],
                       constructorArgs = [JStr token]\<rparr>, Some gk)
                   \<in> set (attempts (main D g cfg args dir) w)) \<and>
            (\<exists>m. files (snd (main D g cfg args dir w)) [dir, ''..'', args_output args] = Some m \<and>
                 map fst m = [''MiMC'', ''BatchUpdateStateTreeVerifier'',
                              ''QuadraticVoteTallyVerifier'', ''MACI'']))"
proof -
  have "returns (main D g cfg args dir) w (\<lambda>r w'.
         \<not> attempted SignUpToken (drop (length (chain w)) (chain w')) \<and>
         (\<forall>(req, out) \<in> set (drop (length (chain w)) (chain w')).
            contract req = SignUpTokenGatekeeper \<longrightarrow> constructorArgs req = [JStr token]) \<and>
         (\<not> rejected ConstantInitialVoiceCreditProxy (drop (length (chain w)) (chain w')) \<longrightarrow>
            (\<exists>out. (\<lparr>contract = SignUpTokenGatekeeper, libraries = [],
                        constructorArgs = [JStr token]\<rparr>, out)
                    \<in> set (drop (length (chain w)) (chain w')))) \<and>
         (r = Inr () \<longrightarrow>
            (\<exists>gk. (\<lparr>contract = SignUpTokenGatekeeper, libraries = [],
                       constructorArgs = [JStr token]\<rparr>, Some gk)
                   \<in> set (drop (length (chain w)) (chain w'))) \<and>
            (\<exists>m. files w' [dir, ''..'', args_output args] = Some m \<and>
                 map fst m = [''MiMC'', ''BatchUpdateStateTreeVerifier'',
                              ''QuadraticVoteTallyVerifier'', ''MACI''])))"
    using assms
    by (simp add: main_def deployMaci_def returns_simps attempted_def rejected_def)
  from returnsD [OF this] show ?thesis
    by (simp add: attempts_def)
qed

theorem token_override_witness:
  "args_signUpToken (sample_arguments (Some ''0xT0'') None) = Some ''0xT0'' \<and> ''0xT0'' \<noteq> [] \<and>
   \<not> attempted SignUpToken
       (attempts (main accepting sample_genPubKey sample_config
                    (sample_arguments (Some ''0xT0'') None) ''scripts'') first_run) \<and>
   \<not> rejected ConstantInitialVoiceCreditProxy
       (attempts (main accepting sample_genPubKey sample_config
                    (sample_arguments (Some ''0xT0'') None) ''scripts'') first_run) \<and>
   attempts (main accepting sample_genPubKey sample_config
               (sample_arguments (Some ''0xT0'') None) ''scripts'') first_run ! 1 =
     (\<lparr>contract = SignUpTokenGatekeeper, libraries = [],
         constructorArgs = [JStr ''0xT0'']\<rparr>, Some ''0x04'') \<and>
   fst (main accepting sample_genPubKey sample_config (sample_arguments (Some ''0xT0'') None)
          ''scripts'' first_run) = Inr () \<and>
   map fst (the (files (snd (main accepting sample_genPubKey sample_config
                               (sample_arguments (Some ''0xT0'') None) ''scripts'' first_run))
                   [''scripts'', ''..'', ''deployedAddresses.json''])) =
     [''MiMC'', ''BatchUpdateStateTreeVerifier'', ''QuadraticVoteTallyVerifier'', ''MACI'']"
proof -
  have h: "args_signUpToken (sample_arguments (Some ''0xT0'') None) = Some ''0xT0''"
    "''0xT0'' \<noteq> []"
    by (simp_all add: sample_arguments_sel)
  from token_override [OF h, of accepting sample_genPubKey sample_config "''scripts''" first_run]
  show ?thesis
    by (simp add: attempts_def sample_run_token attempted_def rejected_def chain_first_run
          sample_arguments_sel)
qed

theorem token_override_manifest_counterexample:
  "args_signUpToken (sample_arguments (Some ''0xT0'') None) = Some ''0xT0'' \<and>
   fst (main accepting sample_genPubKey sample_config (sample_arguments (Some ''0xT0'') None)
          ''scripts'' first_run) = Inr () \<and>
   files (snd (main accepting sample_genPubKey sample_config
                 (sample_arguments (Some ''0xT0'') None) ''scripts'' first_run))
     [''scripts'', ''..'', ''deployedAddresses.json''] =
     Some [(''MiMC'', ''0x01''), (''BatchUpdateStateTreeVerifier'', ''0x07''),
           (''QuadraticVoteTallyVerifier'', ''0x08''), (''MACI'', ''0x09'')] \<and>
   ''0xT0'' \<notin> set (map snd
                      [(''MiMC'', ''0x01''), (''BatchUpdateStateTreeVerifier'', ''0x07''),
                       (''QuadraticVoteTallyVerifier'', ''0x08''), (''MACI'', ''0x09'')])"
  by (simp add: sample_run_token sample_arguments_sel)

text \<open>
  Claim C3, amended. The manifest that a completed run writes has exactly the four
  entries MiMC, BatchUpdateStateTreeVerifier, QuadraticVoteTallyVerifier and MACI, in
  this order, each with the address that the deployer gave for that contract in this
  run. The token, the voice-credit proxy and the gatekeeper have no entry.
\<close>

theorem completed_run_manifest:
  assumes "fst (main D g cfg args dir w) = Inr ()"
  shows "\<exists>mimc bust qvt maci.
           files (snd (main D g cfg args dir w)) [dir, ''..'', args_output args] =
             Some [(''MiMC'', mimc), (''BatchUpdateStateTreeVerifier'', bust),
                   (''QuadraticVoteTallyVerifier'', qvt), (''MACI'', maci)] \<and>
           deployed MiMC mimc (attempts (main D g cfg args dir) w) \<and>
           deployed BatchUpdateStateTreeVerifier bust (attempts (main D g cfg args dir) w) \<and>
           deployed QuadVoteTallyVerifier qvt (attempts (main D g cfg args dir) w) \<and>
           deployed MACI maci (attempts (main D g cfg args dir) w)"
proof -
  have "returns (main D g cfg args dir) w (\<lambda>r w'.
          r = Inr () \<longrightarrow>
          (\<exists>mimc bust qvt maci.
             files w' [dir, ''..'', args_output args] =
               Some [(''MiMC'', mimc), (''BatchUpdateStateTreeVerifier'', bust),
                     (''QuadraticVoteTallyVerifier'', qvt), (''MACI'', maci)] \<and>
             deployed MiMC mimc (drop (length (chain w)) (chain w')) \<and>
             deployed BatchUpdateStateTreeVerifier bust (drop (length (chain w)) (chain w')) \<and>
             deployed QuadVoteTallyVerifier qvt (drop (length (chain w)) (chain w')) \<and>
             deployed MACI maci (drop (length (chain w)) (chain w'))))"
    by (simp add: main_def deployMaci_def returns_simps deployed_def)
  from returnsD [OF this] assms show ?thesis
    by (simp add: attempts_def)
qed

theorem completed_run_manifest_witness:
  "fst (main accepting sample_genPubKey sample_config (sample_arguments None None) ''scripts''
          first_run) = Inr () \<and>
   files (snd (main accepting sample_genPubKey sample_config (sample_arguments None None)
                 ''scripts'' first_run)) [''scripts'', ''..'', ''deployedAddresses.json''] =
     Some [(''MiMC'', ''0x01''), (''BatchUpdateStateTreeVerifier'', ''0x07''),
           (''QuadraticVoteTallyVerifier'', ''0x08''), (''MACI'', ''0x09'')] \<and>
   deployed MiMC ''0x01''
     (attempts (main accepting sample_genPubKey sample_config (sample_arguments None None)
                  ''scripts'') first_run) \<and>
   deployed MACI ''0x09''
     (attempts (main accepting sample_genPubKey sample_config (sample_arguments None None)
                  ''scripts'') first_run)"
proof -
  have h: "fst (main accepting sample_genPubKey sample_config (sample_arguments None None)
                  ''scripts'' first_run) = Inr ()"
    by (simp add: sample_run)
  from completed_run_manifest [OF h] show ?thesis
    by (simp add: attempts_def sample_run deployed_def chain_first_run sample_arguments_sel)
qed

theorem completed_run_manifest_counterexample:
  "fst (main accepting sample_genPubKey sample_config (sample_arguments None None) ''scripts''
          first_run) = Inr () \<and>
   deployed SignUpToken ''0x03''
     (chain (snd (main accepting sample_genPubKey sample_config (sample_arguments None None)
                    ''scripts'' first_run))) \<and>
   deployed ConstantInitialVoiceCreditProxy ''0x06''
     (chain (snd (main accepting sample_genPubKey sample_config (sample_arguments None None)
                    ''scripts'' first_run))) \<and>
   deployed SignUpTokenGatekeeper ''0x04''
     (chain (snd (main accepting sample_genPubKey sample_config (sample_arguments None None)
                    ''scripts'' first_run))) \<and>
   files (snd (main accepting sample_genPubKey sample_config (sample_arguments None None)
                 ''scripts'' first_run)) [''scripts'', ''..'', ''deployedAddresses.json''] =
     Some [(''MiMC'', ''0x01''), (''BatchUpdateStateTreeVerifier'', ''0x07''),
           (''QuadraticVoteTallyVerifier'', ''0x08''), (''MACI'', ''0x09'')]"
  by (simp add: sample_run deployed_def)




text \<open>
  Claim C5, amended. When the deployer rejects the gatekeeper, the run ends with that
  error; the main contract, the hashing library and the verifiers are never attempted;
  and no manifest is written or handed to the caller, not even a partial one: the files
  are as they were before the run.
\<close>

theorem gatekeeper_failure:
  assumes "rejected SignUpTokenGatekeeper (attempts (main D g cfg args dir) w)"
  shows "fst (main D g cfg args dir w) = Inl (DeploymentFailed SignUpTokenGatekeeper) \<and>
         \<not> attempted MACI (attempts (main D g cfg args dir) w) \<and>
         \<not> attempted MiMC (attempts (main D g cfg args dir) w) \<and>
         \<not> attempted BatchUpdateStateTreeVerifier (attempts (main D g cfg args dir) w) \<and>
         \<not> attempted QuadVoteTallyVerifier (attempts (main D g cfg args dir) w) \<and>
         files (snd (main D g cfg args dir w)) = files w"
proof -
  have "returns (main D g cfg args dir) w (\<lambda>r w'.
          rejected SignUpTokenGatekeeper (drop (length (chain w)) (chain w')) \<longrightarrow>
          r = Inl (DeploymentFailed SignUpTokenGatekeeper) \<and>
          \<not> attempted MACI (drop (length (chain w)) (chain w')) \<and>
          \<not> attempted MiMC (drop (length (chain w)) (chain w')) \<and>
          \<not> attempted BatchUpdateStateTreeVerifier (drop (length (chain w)) (chain w')) \<and>
          \<not> attempted QuadVoteTallyVerifier (drop (length (chain w)) (chain w')) \<and>
          files w' = files w)"
    by (simp add: main_def deployMaci_def returns_simps attempted_def rejected_def)
  from returnsD [OF this] assms show ?thesis
    by (simp add: attempts_def)
qed

theorem gatekeeper_failure_witness:
  "rejected SignUpTokenGatekeeper
     (attempts (main (rejecting SignUpTokenGatekeeper) sample_genPubKey sample_config
                  (sample_arguments None None) ''scripts'') first_run) \<and>
   fst (main (rejecting SignUpTokenGatekeeper) sample_genPubKey sample_config
          (sample_arguments None None) ''scripts'' first_run) =
     Inl (DeploymentFailed SignUpTokenGatekeeper) \<and>
   \<not> attempted MACI
       (attempts (main (rejecting SignUpTokenGatekeeper) sample_genPubKey sample_config
                    (sample_arguments None None) ''scripts'') first_run) \<and>
   files (snd (main (rejecting SignUpTokenGatekeeper) sample_genPubKey sample_config
                 (sample_arguments None None) ''scripts'' first_run)) = files first_run"
proof -
  have h: "rejected SignUpTokenGatekeeper
     (attempts (main (rejecting SignUpTokenGatekeeper) sample_genPubKey sample_config
                  (sample_arguments None None) ''scripts'') first_run)"
    by (simp add: attempts_def chain_first_run sample_run_gatekeeper_rejected rejected_def)
  from gatekeeper_failure [OF h] h show ?thesis
    by simp
qed

theorem gatekeeper_failure_counterexample:
  "main (rejecting SignUpTokenGatekeeper) sample_genPubKey sample_config
     (sample_arguments None None) ''scripts'' first_run =
     (Inl (DeploymentFailed SignUpTokenGatekeeper),
      first_run\<lparr>chain :=
         [(\<lparr>contract = SignUpToken, libraries = [], constructorArgs = []\<rparr>, Some ''0x03''),
          (\<lparr>contract = ConstantInitialVoiceCreditProxy, libraries = [],
              constructorArgs = [JNum 100]\<rparr>, Some ''0x06''),
          (\<lparr>contract = SignUpTokenGatekeeper, libraries = [],
              constructorArgs = [JStr ''0x03'']\<rparr>, None)],
       files := Map.empty\<rparr>) \<and>
   files (snd (main (rejecting SignUpTokenGatekeeper) sample_genPubKey sample_config
                 (sample_arguments None None) ''scripts'' first_run))
     [''scripts'', ''..'', ''deployedAddresses.json''] = None"
  by (simp add: sample_run_gatekeeper_rejected)

section \<open>The address store of the VkRegistry command\<close>

text \<open>
  Claim C10. On a first run, when no file exists at the store path,
  \<open>deployVkRegistryContract\<close> throws at the rename: no deployment is attempted and no
  file is written, so the world is as it was.
\<close>

theorem first_run_throws:
  assumes "files w contractAddressesStore = None"
  shows "deployVkRegistryContract D contractAddressesStore oldContractAddressesStore quiet w =
           (Inl ENOENT, w)"
  using assms
  by (simp add: deployVkRegistryContract_def await_def renameSync_def)

theorem first_run_throws_witness:
  "files first_run sample_store = None \<and>
   deployVkRegistryContract accepting sample_store sample_backup False first_run =
     (Inl ENOENT, first_run)"
  using first_run_throws [of first_run sample_store accepting sample_backup False]
  by (simp add: files_first_run)

text \<open>
  Claim C9, amended. When a manifest file exists at the store path, the rename of
  line 17 moves it to the backup path, where it replaces whatever archive was there, and
  does not fail; \<open>resetStore\<close> as a whole then leaves an empty manifest at the store
  path. Nothing looks at the backup path before the rename.
\<close>

theorem resetStore_replaces_archive:
  assumes "files w contractAddressesStore = Some m"
  shows "renameSync contractAddressesStore oldContractAddressesStore w =
           (Inr (),
            w\<lparr>files := ((files w)(contractAddressesStore := None))
                          (oldContractAddressesStore \<mapsto> m)\<rparr>) \<and>
         resetStore contractAddressesStore oldContractAddressesStore w =
           (Inr (),
            w\<lparr>files := (((files w)(contractAddressesStore := None))
                           (oldContractAddressesStore \<mapsto> m))
                           (contractAddressesStore \<mapsto> [])\<rparr>)"
  using assms
  by (simp add: resetStore_def await_def renameSync_def resetContractAddresses_def)

theorem resetStore_replaces_archive_witness:
  "files third_run sample_store = Some [(''VkRegistry'', ''0x22'')] \<and>
   fst (renameSync sample_store sample_backup third_run) = Inr () \<and>
   fst (resetStore sample_store sample_backup third_run) = Inr () \<and>
   files (snd (resetStore sample_store sample_backup third_run)) sample_store = Some [] \<and>
   files (snd (resetStore sample_store sample_backup third_run)) sample_backup =
     Some [(''VkRegistry'', ''0x22'')]"
proof -
  have h: "files third_run sample_store = Some [(''VkRegistry'', ''0x22'')]"
    by (simp add: third_run_def sample_store_def sample_backup_def)
  from resetStore_replaces_archive [OF h, of sample_backup] h show ?thesis
    by (simp add: sample_store_def sample_backup_def)
qed

theorem archive_overwritten_counterexample:
  "files third_run sample_backup = Some [(''VkRegistry'', ''0x11'')] \<and>
   fst (renameSync sample_store sample_backup third_run) = Inr () \<and>
   files (snd (renameSync sample_store sample_backup third_run)) sample_backup =
     Some [(''VkRegistry'', ''0x22'')] \<and>
   fst (resetStore sample_store sample_backup third_run) = Inr () \<and>
   files (snd (resetStore sample_store sample_backup third_run)) sample_backup =
     Some [(''VkRegistry'', ''0x22'')]"
  by (simp add: resetStore_def await_def renameSync_def resetContractAddresses_def
        third_run_def sample_store_def sample_backup_def)

text \<open>
  When a manifest file exists at the store path, \<open>resetStore\<close>, then
  \<open>storeContractAddress\<close> of a name and an address, then \<open>loadManifest\<close> give the
  manifest with exactly that one entry.
\<close>

lemma reset_store_load_single_entry:
  assumes "files w contractAddressesStore \<noteq> None"
  shows "fst (reset_store_load contractAddressesStore oldContractAddressesStore name addr w) =
           Inr [(name, addr)]"
  using assms
  by (auto simp add: reset_store_load_def resetStore_def await_def renameSync_def
        resetContractAddresses_def storeContractAddress_def loadManifest_def)

text \<open>
  Claim C8. The sequence \<open>resetStore\<close>, \<open>storeContractAddress\<close>, \<open>loadManifest\<close> does
  not give the single entry on a first run. The comment of line 16 takes the command as
  the first of a deployment, yet with no file at the store path the rename of line 17
  throws: the sequence ends with \<open>ENOENT\<close>, nothing is stored and nothing is loaded.
\<close>

theorem reset_store_load_first_run:
  "files first_run sample_store = None \<and>
   reset_store_load sample_store sample_backup ''VkRegistry'' ''0x0a'' first_run =
     (Inl ENOENT, first_run) \<and>
   fst (reset_store_load sample_store sample_backup ''VkRegistry'' ''0x0a'' third_run) =
     Inr [(''VkRegistry'', ''0x0a'')]"
proof -
  have "files third_run sample_store \<noteq> None"
    by (simp add: third_run_def sample_store_def sample_backup_def)
  then show ?thesis
    by (simp add: reset_store_load_single_entry)
       (simp add: reset_store_load_def resetStore_def await_def renameSync_def files_first_run)
qed

end
